theory Spec2Isabelle
  imports Complex_Main "HOL-Library.Sublist"
begin

section \<open>Data model of \<open>MockTradingBot\<close> (src/app.py)\<close>

text \<open>
  Python floats are modelled as exact reals: rounding, overflow, infinities and NaN are
  not part of this model. Python integers are \<open>int\<close>. Every value the source takes
  from outside (the random draws, the clock) is a parameter of the operation that reads it.
\<close>

type_synonym timestamp = string

datatype cfg_value = VStr string | VNum real

text \<open>The configuration dictionary; \<open>{}\<close> is \<open>[]\<close>.\<close>

type_synonym config = "(string \<times> cfg_value) list"

text \<open>An entry of \<open>trade_history\<close>; the key \<open>'profit'\<close> exists on SELL records only.\<close>

record trade =
  t_timestamp :: timestamp
  t_action :: string
  t_shares :: int
  t_price :: real
  t_order_id :: string
  t_profit :: "real option"

text \<open>An entry of \<open>performance_history\<close>.\<close>

record sample =
  p_timestamp :: timestamp
  p_portfolio_value :: real
  p_cash :: real
  p_position_value :: real

text \<open>The dictionary under \<open>bot_state['current_position']\<close> (\<open>None\<close> when flat).\<close>

record position =
  qty :: int
  avg_entry_price :: real
  pos_current_price :: real
  market_value :: real
  unrealized_pl :: real

text \<open>The dictionary \<open>bot_state\<close>.\<close>

record snapshot =
  status :: string
  current_position :: "position option"
  portfolio_value :: real
  s_cash :: real
  total_pl :: real
  total_pl_pct :: real
  last_update :: "timestamp option"
  last_action :: string
  market_open :: bool

text \<open>
  The object itself. \<open>bot_thread\<close> only records whether a thread object has been
  created; the thread's concurrent execution is not modelled.
\<close>

record bot =
  bot_thread :: "unit option"
  is_running :: bool
  initial_value :: real
  cash :: real
  shares_held :: int
  current_price :: real
  bot_state :: snapshot
  trade_history :: "trade list"
  performance_history :: "sample list"
  config :: config

text \<open>\<open>__init__\<close>\<close>

definition init :: bot where
  "init =
     \<lparr> bot_thread = None,
       is_running = False,
       initial_value = 10000,
       cash = 10000,
       shares_held = 0,
       current_price = 175,
       bot_state =
         \<lparr> status = ''stopped'',
           current_position = None,
           portfolio_value = 10000,
           s_cash = 10000,
           total_pl = 0,
           total_pl_pct = 0,
           last_update = None,
           last_action = ''HOLD'',
           market_open = True \<rparr>,
       trade_history = [],
       performance_history = [],
       config = [] \<rparr>"

section \<open>Python primitives used by the source\<close>

datatype py_error = ZeroDivisionError

text \<open>\<open>int(x)\<close> on a float truncates towards zero.\<close>

definition py_int :: "real \<Rightarrow> int" where
  "py_int x = (if 0 \<le> x then \<lfloor>x\<rfloor> else \<lceil>x\<rceil>)"

text \<open>Float division raises on a zero divisor.\<close>

definition py_truediv :: "real \<Rightarrow> real \<Rightarrow> py_error + real" where
  "py_truediv a b = (if b = 0 then Inl ZeroDivisionError else Inr (a / b))"

text \<open>\<open>str\<close> of an integer, as the f-string \<open>f'mock-{n}'\<close> formats it.\<close>

definition digit_char :: "nat \<Rightarrow> char" where
  "digit_char d = char_of (48 + d)"

fun str_nat :: "nat \<Rightarrow> string" where
  "str_nat n = (if n < 10 then [digit_char n] else str_nat (n div 10) @ [digit_char (n mod 10)])"

declare str_nat.simps [simp del]

definition str_int :: "int \<Rightarrow> string" where
  "str_int i = (if i < 0 then CHR ''-'' # str_nat (nat (- i)) else str_nat (nat i))"

text \<open>
  The slice \<open>xs[k:]\<close>: a negative start counts from the end, and a start outside the
  list is clamped.
\<close>

definition py_slice_from :: "'a list \<Rightarrow> int \<Rightarrow> 'a list" where
  "py_slice_from xs k =
     (let n = int (length xs);
          start = (if k < 0 then max (n + k) 0 else min k n)
      in drop (nat start) xs)"

section \<open>The operations\<close>

datatype response = Success string | Failure string

definition AlreadyRunning :: response where
  "AlreadyRunning = Failure ''Bot already running''"

definition NotConfigured :: response where
  "NotConfigured = Failure ''Bot not initialized''"

definition NotRunning :: response where
  "NotRunning = Failure ''Bot not running''"

text \<open>\<open>initialize(config)\<close>, for a configuration that is a dictionary.\<close>

definition initialize :: "bot \<Rightarrow> config \<Rightarrow> bot \<times> response" where
  "initialize b c =
     (b\<lparr>config := c, bot_state := (bot_state b)\<lparr>status := ''initialized''\<rparr>\<rparr>,
      Success ''Mock bot initialized'')"

text \<open>
  \<open>simulate_price_movement\<close>; \<open>change_percent\<close> is the value drawn by
  \<open>random.gauss(0.001, 0.015)\<close>.
\<close>

definition simulate_price_movement :: "bot \<Rightarrow> real \<Rightarrow> bot" where
  "simulate_price_movement b change_percent =
     b\<lparr>current_price := current_price b * (1 + change_percent)\<rparr>"

text \<open>
  \<open>make_trading_decision\<close>; \<open>r\<close> is the value drawn by \<open>random.random()\<close>, uniform
  on the interval from 0 (included) to 1 (excluded). The result is an index into
  \<open>['HOLD', 'BUY', 'SELL']\<close>.
\<close>

definition make_trading_decision :: "bot \<Rightarrow> real \<Rightarrow> int" where
  "make_trading_decision b r =
     (if shares_held b = 0
      then (if r < 2 / 10 then 1 else 0)
      else (if r < 15 / 100 then 2 else 0))"

text \<open>
  \<open>execute_mock_trade(action)\<close>; \<open>ts\<close> is \<open>datetime.now().isoformat()\<close> and \<open>n\<close>
  is the value drawn by \<open>random.randint(1000, 9999)\<close>. The only statement that can raise
  is the division in the BUY branch, which runs before anything is assigned.
\<close>

definition execute_mock_trade :: "bot \<Rightarrow> int \<Rightarrow> timestamp \<Rightarrow> int \<Rightarrow> py_error + bot" where
  "execute_mock_trade b action ts n =
     (if action = 1 \<and> shares_held b = 0 then
        (case py_truediv (cash b * (95 / 100)) (current_price b) of
           Inl e \<Rightarrow> Inl e
         | Inr q \<Rightarrow>
             (let shares_to_buy = py_int q in
              if shares_to_buy > 0 then
                (let cost = real_of_int shares_to_buy * current_price b;
                     tr = \<lparr> t_timestamp = ts,
                            t_action = ''BUY'',
                            t_shares = shares_to_buy,
                            t_price = current_price b,
                            t_order_id = ''mock-'' @ str_int n,
                            t_profit = None \<rparr>
                 in Inr (b\<lparr> cash := cash b - cost,
                            shares_held := shares_to_buy,
                            trade_history := trade_history b @ [tr],
                            bot_state := (bot_state b)\<lparr>last_action := ''BUY''\<rparr> \<rparr>))
              else Inr b))
      else if action = 2 \<and> shares_held b > 0 then
        (let revenue = real_of_int (shares_held b) * current_price b;
             profit = revenue -
               (real_of_int (shares_held b) * (portfolio_value (bot_state b) - cash b)
                  / real_of_int (max (shares_held b) 1));
             tr = \<lparr> t_timestamp = ts,
                    t_action = ''SELL'',
                    t_shares = shares_held b,
                    t_price = current_price b,
                    t_order_id = ''mock-'' @ str_int n,
                    t_profit = Some profit \<rparr>
         in Inr (b\<lparr> cash := cash b + revenue,
                    trade_history := trade_history b @ [tr],
                    bot_state := (bot_state b)\<lparr>last_action := ''SELL''\<rparr>,
                    shares_held := 0 \<rparr>))
      else Inr (b\<lparr>bot_state := (bot_state b)\<lparr>last_action := ''HOLD''\<rparr>\<rparr>))"

text \<open>
  \<open>update_state\<close>; \<open>ts1\<close> and \<open>ts2\<close> are its two readings of the clock. The
  dictionary update leaves \<open>status\<close> and \<open>last_action\<close> as they are.
\<close>

definition update_state :: "bot \<Rightarrow> timestamp \<Rightarrow> timestamp \<Rightarrow> bot" where
  "update_state b ts1 ts2 =
     (let position_value = real_of_int (shares_held b) * current_price b;
          portfolio_value' = cash b + position_value;
          total_pl' = portfolio_value' - initial_value b;
          total_pl_pct' = (total_pl' / initial_value b) * 100;
          st = (bot_state b)
            \<lparr> portfolio_value := portfolio_value',
              s_cash := cash b,
              current_position :=
                (if shares_held b > 0 then
                   Some \<lparr> qty = shares_held b,
                          avg_entry_price = current_price b,
                          pos_current_price = current_price b,
                          market_value = position_value,
                          unrealized_pl =
                            (if shares_held b > 0
                             then position_value - real_of_int (shares_held b) * current_price b
                             else 0) \<rparr>
                 else None),
              total_pl := total_pl',
              total_pl_pct := total_pl_pct',
              last_update := Some ts1,
              market_open := True \<rparr>;
          ph = performance_history b @
                 [\<lparr> p_timestamp = ts2,
                    p_portfolio_value = portfolio_value',
                    p_cash = cash b,
                    p_position_value = position_value \<rparr>]
      in b\<lparr> bot_state := st,
            performance_history :=
              (if length ph > 1000 then py_slice_from ph (- 1000) else ph) \<rparr>)"

text \<open>
  One pass through the body of the \<open>while\<close> loop of \<open>trading_loop\<close>, without the
  sleep. An exception raised inside the \<open>try\<close> block is caught and printed; what was
  assigned before it stays assigned, and \<open>update_state\<close> is skipped.
\<close>

definition trading_loop_body ::
  "bot \<Rightarrow> real \<Rightarrow> real \<Rightarrow> timestamp \<Rightarrow> int \<Rightarrow> timestamp \<Rightarrow> timestamp \<Rightarrow> bot" where
  "trading_loop_body b change_percent r ts n ts1 ts2 =
     (let b0 = b\<lparr>bot_state := (bot_state b)\<lparr>status := ''active''\<rparr>\<rparr>;
          b1 = simulate_price_movement b0 change_percent;
          action = make_trading_decision b1 r
      in case execute_mock_trade b1 action ts n of
           Inl e \<Rightarrow> b1
         | Inr b2 \<Rightarrow> update_state b2 ts1 ts2)"

text \<open>The assignment after the \<open>while\<close> loop of \<open>trading_loop\<close>.\<close>

definition trading_loop_exit :: "bot \<Rightarrow> bot" where
  "trading_loop_exit b = b\<lparr>bot_state := (bot_state b)\<lparr>status := ''stopped''\<rparr>\<rparr>"

text \<open>\<open>start()\<close>; \<open>not self.config\<close> is true exactly of the empty dictionary.\<close>

definition start :: "bot \<Rightarrow> bot \<times> response" where
  "start b =
     (if is_running b then (b, AlreadyRunning)
      else if config b = [] then (b, NotConfigured)
      else (b\<lparr>is_running := True, bot_thread := Some ()\<rparr>, Success ''Mock bot started''))"

text \<open>\<open>stop()\<close>; the bounded \<open>join\<close> has no effect on the fields.\<close>

definition stop :: "bot \<Rightarrow> bot \<times> response" where
  "stop b =
     (if \<not> is_running b then (b, NotRunning)
      else (b\<lparr>is_running := False, bot_state := (bot_state b)\<lparr>status := ''stopped''\<rparr>\<rparr>,
            Success ''Mock bot stopped''))"

definition get_state :: "bot \<Rightarrow> snapshot" where
  "get_state b = bot_state b"

text \<open>
  \<open>get_trades(limit=50)\<close> and \<open>get_performance(limit=200)\<close>; \<open>None\<close> is the call
  without an argument.
\<close>

definition get_trades :: "bot \<Rightarrow> int option \<Rightarrow> trade list" where
  "get_trades b limit =
     (let l = (case limit of None \<Rightarrow> 50 | Some l \<Rightarrow> l)
      in py_slice_from (trade_history b) (- l))"

definition get_performance :: "bot \<Rightarrow> int option \<Rightarrow> sample list" where
  "get_performance b limit =
     (let l = (case limit of None \<Rightarrow> 200 | Some l \<Rightarrow> l)
      in py_slice_from (performance_history b) (- l))"

section \<open>Histories of calls\<close>

text \<open>
  A call on the object that can change it, with the values it reads from outside. The
  methods that \<open>trading_loop\<close> calls are listed on their own as well, so that a history
  may apply any action at any point.
\<close>

datatype event =
    Initialize config
  | Start
  | Stop
  | PriceMove real
  | Execute int timestamp int
  | UpdateState timestamp timestamp
  | LoopBody real real timestamp int timestamp timestamp
  | LoopExit

text \<open>A call of \<open>execute_mock_trade\<close> that raises has assigned nothing.\<close>

fun apply_event :: "bot \<Rightarrow> event \<Rightarrow> bot" where
  "apply_event b (Initialize c) = fst (initialize b c)"
| "apply_event b Start = fst (start b)"
| "apply_event b Stop = fst (stop b)"
| "apply_event b (PriceMove x) = simulate_price_movement b x"
| "apply_event b (Execute a ts n) =
     (case execute_mock_trade b a ts n of Inl e \<Rightarrow> b | Inr b' \<Rightarrow> b')"
| "apply_event b (UpdateState ts1 ts2) = update_state b ts1 ts2"
| "apply_event b (LoopBody x r ts n ts1 ts2) = trading_loop_body b x r ts n ts1 ts2"
| "apply_event b LoopExit = trading_loop_exit b"

definition run :: "bot \<Rightarrow> event list \<Rightarrow> bot" where
  "run b evs = foldl apply_event b evs"

text \<open>The calls that neither move the price, nor trade, nor refresh the snapshot.\<close>

fun lifecycle :: "event \<Rightarrow> bool" where
  "lifecycle (Initialize c) = True"
| "lifecycle Start = True"
| "lifecycle Stop = True"
| "lifecycle LoopExit = True"
| "lifecycle _ = False"

text \<open>
  The price process multiplies the price by \<open>1 + change_percent\<close>; the price stays
  positive as long as every factor is positive.
\<close>

fun positive_factor :: "event \<Rightarrow> bool" where
  "positive_factor (PriceMove x) = (- 1 < x)"
| "positive_factor (LoopBody x r ts n ts1 ts2) = (- 1 < x)"
| "positive_factor _ = True"

text \<open>
  The samples that a history appends to \<open>performance_history\<close>, oldest first, whether
  or not they are still retained.
\<close>

definition new_sample :: "bot \<Rightarrow> timestamp \<Rightarrow> sample" where
  "new_sample b ts2 =
     \<lparr> p_timestamp = ts2,
       p_portfolio_value = cash b + real_of_int (shares_held b) * current_price b,
       p_cash = cash b,
       p_position_value = real_of_int (shares_held b) * current_price b \<rparr>"

fun appended_by :: "bot \<Rightarrow> event \<Rightarrow> sample list" where
  "appended_by b (UpdateState ts1 ts2) = [new_sample b ts2]"
| "appended_by b (LoopBody x r ts n ts1 ts2) =
     (let b1 = simulate_price_movement (b\<lparr>bot_state := (bot_state b)\<lparr>status := ''active''\<rparr>\<rparr>) x
      in case execute_mock_trade b1 (make_trading_decision b1 r) ts n of
           Inl e \<Rightarrow> []
         | Inr b2 \<Rightarrow> [new_sample b2 ts2])"
| "appended_by b _ = []"

fun appended :: "bot \<Rightarrow> event list \<Rightarrow> sample list" where
  "appended b [] = []"
| "appended b (ev # evs) = appended_by b ev @ appended (apply_event b ev) evs"

text \<open>
  The condition under which the accounting is meaningful: cash and holdings are not
  negative and the price is positive.
\<close>

definition sound :: "bot \<Rightarrow> bool" where
  "sound b \<longleftrightarrow> 0 \<le> cash b \<and> 0 \<le> shares_held b \<and> 0 < current_price b"

section \<open>The snapshot\<close>

lemma initial_value_apply_event: "initial_value (apply_event b ev) = initial_value b"
  by (cases ev)
     (auto simp: initialize_def start_def stop_def simulate_price_movement_def
        execute_mock_trade_def update_state_def trading_loop_body_def trading_loop_exit_def
        py_truediv_def Let_def split: sum.splits if_splits)

lemma initial_value_run: "initial_value (run b evs) = initial_value b"
  unfolding run_def by (induction evs arbitrary: b) (simp_all add: initial_value_apply_event)

lemma lifecycle_apply_event:
  "lifecycle ev \<Longrightarrow>
     cash (apply_event b ev) = cash b \<and>
     shares_held (apply_event b ev) = shares_held b \<and>
     current_price (apply_event b ev) = current_price b \<and>
     portfolio_value (bot_state (apply_event b ev)) = portfolio_value (bot_state b) \<and>
     total_pl (bot_state (apply_event b ev)) = total_pl (bot_state b) \<and>
     total_pl_pct (bot_state (apply_event b ev)) = total_pl_pct (bot_state b)"
  by (cases ev) (simp_all add: initialize_def start_def stop_def trading_loop_exit_def)

lemma lifecycle_run:
  "\<forall>e\<in>set evs. lifecycle e \<Longrightarrow>
     cash (run b evs) = cash b \<and>
     shares_held (run b evs) = shares_held b \<and>
     current_price (run b evs) = current_price b \<and>
     portfolio_value (bot_state (run b evs)) = portfolio_value (bot_state b) \<and>
     total_pl (bot_state (run b evs)) = total_pl (bot_state b) \<and>
     total_pl_pct (bot_state (run b evs)) = total_pl_pct (bot_state b)"
  unfolding run_def
proof (induction evs arbitrary: b)
  case Nil
  show ?case by simp
next
  case (Cons ev evs)
  from Cons.prems have l: "lifecycle ev" and ls: "\<forall>e\<in>set evs. lifecycle e" by simp_all
  show ?case using Cons.IH [OF ls, of "apply_event b ev"] lifecycle_apply_event [OF l, of b]
    by simp
qed

lemma update_state_snapshot:
  "portfolio_value (bot_state (update_state b ts1 ts2)) =
     cash b + real_of_int (shares_held b) * current_price b \<and>
   total_pl (bot_state (update_state b ts1 ts2)) =
     cash b + real_of_int (shares_held b) * current_price b - initial_value b \<and>
   total_pl_pct (bot_state (update_state b ts1 ts2)) =
     100 * (cash b + real_of_int (shares_held b) * current_price b - initial_value b) / initial_value b \<and>
   cash (update_state b ts1 ts2) = cash b \<and>
   shares_held (update_state b ts1 ts2) = shares_held b \<and>
   current_price (update_state b ts1 ts2) = current_price b \<and>
   initial_value (update_state b ts1 ts2) = initial_value b"
  by (simp add: update_state_def Let_def)

text \<open>
  C1: in every state reached from the initial one by any history of calls, a call of
  \<open>update_state\<close> leaves a snapshot in which \<open>portfolio_value\<close> is
  \<open>cash + shares_held * current_price\<close>, \<open>total_pl\<close> is
  \<open>portfolio_value - initial_value\<close> with \<open>initial_value = 10000\<close>, and
  \<open>total_pl_pct\<close> is \<open>100 * total_pl / initial_value\<close>; this is still so after
  any lifecycle calls that follow the refresh, which is when a reader observes it.
\<close>

theorem snapshot_after_refresh:
  assumes "\<forall>e\<in>set evs'. lifecycle e"
    and "b = run (update_state (run init evs) ts1 ts2) evs'"
  shows "portfolio_value (get_state b) = cash b + real_of_int (shares_held b) * current_price b \<and>
         initial_value b = 10000 \<and>
         total_pl (get_state b) = portfolio_value (get_state b) - initial_value b \<and>
         total_pl_pct (get_state b) = 100 * total_pl (get_state b) / initial_value b"
proof -
  let ?r = "update_state (run init evs) ts1 ts2"
  have iv: "initial_value b = 10000"
    using assms(2) by (simp add: initial_value_run update_state_snapshot init_def)
  have iv': "initial_value (run init evs) = 10000"
    by (simp add: initial_value_run init_def)
  show ?thesis
    using lifecycle_run [OF assms(1), of ?r] update_state_snapshot [of "run init evs" ts1 ts2] iv iv'
    by (simp add: assms(2) get_state_def)
qed

theorem snapshot_after_refresh_witness:
  "list_all lifecycle [Stop] \<and>
   portfolio_value (get_state (run (update_state (run init [Execute 1 ''t'' 1234, PriceMove (1/10)]) ''u'' ''v'') [Stop])) = 10945"
  using snapshot_after_refresh [of "[Stop]" _ "[Execute 1 ''t'' 1234, PriceMove (1/10)]" "''u''" "''v''", OF _ refl]
  by (simp add: run_def init_def execute_mock_trade_def py_truediv_def py_int_def
        simulate_price_movement_def stop_def Let_def update_state_def)

section \<open>The trade executor\<close>

lemma py_int_floor: "0 \<le> x \<Longrightarrow> py_int x = \<lfloor>x\<rfloor>"
  by (simp add: py_int_def)

lemma py_int_neg: "x < 0 \<Longrightarrow> py_int x \<le> 0 \<and> \<lfloor>x\<rfloor> \<le> 0"
proof -
  assume x: "x < 0"
  have "\<lceil>x\<rceil> \<le> 0" using x by (simp add: ceiling_le_iff)
  moreover have "\<lfloor>x\<rfloor> \<le> 0" using x by (simp add: floor_le_iff)
  ultimately show ?thesis using x by (simp add: py_int_def)
qed

lemma py_int_pos_iff: "(0 < py_int x) = (0 < \<lfloor>x\<rfloor>)"
proof (cases "0 \<le> x")
  case True
  then show ?thesis by (simp add: py_int_floor)
next
  case False
  then show ?thesis using py_int_neg [of x] by simp
qed

lemma py_int_pos_eq: "0 < \<lfloor>x\<rfloor> \<Longrightarrow> py_int x = \<lfloor>x\<rfloor>"
proof -
  assume "0 < \<lfloor>x\<rfloor>"
  then have "0 \<le> x" by (simp add: floor_less_iff less_floor_iff)
  then show ?thesis by (rule py_int_floor)
qed

text \<open>
  C3: \<open>execute_mock_trade\<close> with the BUY action (1) on a flat position, at a price
  other than zero, with \<open>shares_to_buy = floor(cash * 0.95 / current_price)\<close>: if
  \<open>shares_to_buy \<le> 0\<close> nothing changes and no trade is recorded; otherwise cash
  decreases by \<open>shares_to_buy * current_price\<close>, \<open>shares_held\<close> becomes
  \<open>shares_to_buy\<close>, one BUY record with these shares and this price is appended,
  and \<open>last_action\<close> becomes BUY. (The source truncates towards zero; that differs from
  the floor only where both are at most zero.)
\<close>

theorem buy_when_flat:
  assumes flat: "shares_held b = 0" and price: "current_price b \<noteq> 0"
  shows "let shares_to_buy = \<lfloor>cash b * (95 / 100) / current_price b\<rfloor> in
           (shares_to_buy \<le> 0 \<longrightarrow> execute_mock_trade b 1 ts n = Inr b) \<and>
           (0 < shares_to_buy \<longrightarrow>
              execute_mock_trade b 1 ts n =
                Inr (b\<lparr> cash := cash b - real_of_int shares_to_buy * current_price b,
                       shares_held := shares_to_buy,
                       trade_history := trade_history b @
                         [\<lparr> t_timestamp = ts, t_action = ''BUY'', t_shares = shares_to_buy,
                            t_price = current_price b, t_order_id = ''mock-'' @ str_int n,
                            t_profit = None \<rparr>],
                       bot_state := (bot_state b)\<lparr>last_action := ''BUY''\<rparr> \<rparr>))"
proof -
  let ?q = "cash b * (95 / 100) / current_price b"
  have le: "\<lfloor>?q\<rfloor> \<le> 0 \<Longrightarrow> execute_mock_trade b 1 ts n = Inr b"
  proof -
    assume "\<lfloor>?q\<rfloor> \<le> 0"
    then have "\<not> 0 < py_int ?q" by (simp add: py_int_pos_iff)
    then show ?thesis using flat price
      by (simp add: execute_mock_trade_def py_truediv_def Let_def)
  qed
  have gt: "0 < \<lfloor>?q\<rfloor> \<Longrightarrow> execute_mock_trade b 1 ts n =
                Inr (b\<lparr> cash := cash b - real_of_int \<lfloor>?q\<rfloor> * current_price b,
                       shares_held := \<lfloor>?q\<rfloor>,
                       trade_history := trade_history b @
                         [\<lparr> t_timestamp = ts, t_action = ''BUY'', t_shares = \<lfloor>?q\<rfloor>,
                            t_price = current_price b, t_order_id = ''mock-'' @ str_int n,
                            t_profit = None \<rparr>],
                       bot_state := (bot_state b)\<lparr>last_action := ''BUY''\<rparr> \<rparr>)"
  proof -
    assume pos: "0 < \<lfloor>?q\<rfloor>"
    then have "py_int ?q = \<lfloor>?q\<rfloor>" by (rule py_int_pos_eq)
    then show ?thesis using flat price pos
      by (simp add: execute_mock_trade_def py_truediv_def Let_def)
  qed
  show ?thesis unfolding Let_def using le gt by blast
qed

theorem buy_when_flat_witness:
  "shares_held init = 0 \<and> current_price init \<noteq> 0 \<and>
   \<lfloor>cash init * (95 / 100) / current_price init\<rfloor> = 54 \<and>
   (case execute_mock_trade init 1 ''t'' 1234 of
      Inl e \<Rightarrow> False
    | Inr b' \<Rightarrow> cash b' = 550 \<and> shares_held b' = 54 \<and> length (trade_history b') = 1 \<and>
        last_action (bot_state b') = ''BUY'')"
proof -
  have f: "shares_held init = 0" and p: "current_price init \<noteq> 0"
    by (simp_all add: init_def)
  have q: "\<lfloor>cash init * (95 / 100) / current_price init\<rfloor> = 54"
    by (simp add: init_def)
  show ?thesis
    using buy_when_flat [OF f p, of "''t''" 1234] f p q
    by (simp add: Let_def init_def)
qed

text \<open>
  C10: a SELL (action 2) executed while \<open>shares_held > 0\<close> appends a SELL record whose
  \<open>profit\<close> is the revenue \<open>shares_held * current_price\<close> minus
  \<open>bot_state['portfolio_value'] - cash\<close>, the position value that the snapshot stored
  at the last refresh, with the cash as it is before the sale.
\<close>

theorem sell_profit:
  assumes holding: "0 < shares_held b"
  shows "\<exists>b'. execute_mock_trade b 2 ts n = Inr b' \<and>
           length (trade_history b') = Suc (length (trade_history b)) \<and>
           t_action (last (trade_history b')) = ''SELL'' \<and>
           t_profit (last (trade_history b')) =
             Some (real_of_int (shares_held b) * current_price b
                     - (portfolio_value (bot_state b) - cash b))"
proof -
  have m: "max (shares_held b) 1 = shares_held b" using holding by simp
  have nz: "real_of_int (shares_held b) \<noteq> 0" using holding by simp
  show ?thesis using holding nz
    by (simp add: execute_mock_trade_def Let_def m)
qed

theorem sell_profit_witness:
  "0 < shares_held (run init [Execute 1 ''t'' 1234, UpdateState ''u'' ''v'', PriceMove (1/10),
          UpdateState ''u'' ''v'', PriceMove (1/10)]) \<and>
   (\<exists>b'. execute_mock_trade (run init [Execute 1 ''t'' 1234, UpdateState ''u'' ''v'',
          PriceMove (1/10), UpdateState ''u'' ''v'', PriceMove (1/10)])
            2 ''w'' 4321 = Inr b' \<and>
      t_profit (last (trade_history b')) = Some (2079 / 2))"
proof -
  let ?b = "run init [Execute 1 ''t'' 1234, UpdateState ''u'' ''v'', PriceMove (1/10),
          UpdateState ''u'' ''v'', PriceMove (1/10)]"
  have s: "shares_held ?b = 54 \<and> current_price ?b = 847 / 4 \<and> cash ?b = 550 \<and>
           portfolio_value (bot_state ?b) = 10945"
    by (simp add: run_def init_def execute_mock_trade_def py_truediv_def py_int_def
          simulate_price_movement_def Let_def update_state_def)
  then have h: "0 < shares_held ?b" by simp
  show ?thesis using sell_profit [OF h, of "''w''" 4321] s by auto
qed

text \<open>
  C8: for holdings that are not negative, \<open>make_trading_decision\<close> returns 0 (HOLD),
  1 (BUY) or 2 (SELL) and nothing else; BUY exactly when the position is flat and the
  uniform draw is below 0.20, SELL exactly when shares are held and the draw is below 0.15.
  The draws in the unit interval that give BUY (when flat) are the interval of length 0.20
  from 0, those that give SELL (when holding) the interval of length 0.15 from 0.
\<close>

theorem decision_policy:
  assumes "0 \<le> shares_held b"
  shows "make_trading_decision b r \<in> {0, 1, 2} \<and>
         (make_trading_decision b r = 1 \<longleftrightarrow> shares_held b = 0 \<and> r < 20 / 100) \<and>
         (make_trading_decision b r = 2 \<longleftrightarrow> 0 < shares_held b \<and> r < 15 / 100) \<and>
         (shares_held b = 0 \<longrightarrow>
            {r. 0 \<le> r \<and> r < 1 \<and> make_trading_decision b r = 1} = {0 ..< 20 / 100}) \<and>
         (0 < shares_held b \<longrightarrow>
            {r. 0 \<le> r \<and> r < 1 \<and> make_trading_decision b r = 2} = {0 ..< 15 / 100})"
  using assms by (auto simp: make_trading_decision_def)

theorem decision_policy_witness:
  "0 \<le> shares_held init \<and> make_trading_decision init (1 / 10) = 1 \<and>
   make_trading_decision init (1 / 2) = 0 \<and>
   {r. 0 \<le> r \<and> r < 1 \<and> make_trading_decision init r = 1} = {0 ..< 20 / 100}"
proof -
  have h: "0 \<le> shares_held init" by (simp add: init_def)
  have z: "shares_held init = 0" by (simp add: init_def)
  show ?thesis
    using decision_policy [OF h, of "1 / 10"] decision_policy [OF h, of "1 / 2"] z by auto
qed

text \<open>
  C2: \<open>start()\<close> after \<open>initialize({})\<close>, with no loop running: the source answers
  with the failure "Bot not initialized" and leaves the running flag false, although
  \<open>initialize\<close> has been called and has set the status to "initialized".
\<close>

theorem start_after_initialize_empty_config:
  "start (fst (initialize init [])) = (fst (initialize init []), NotConfigured) \<and>
   \<not> is_running (fst (start (fst (initialize init [])))) \<and>
   status (bot_state (fst (initialize init []))) = ''initialized''"
  by (simp add: start_def initialize_def init_def)

lemma start_while_running: "is_running b \<Longrightarrow> start b = (b, AlreadyRunning)"
  by (simp add: start_def)

lemma start_after_initialize_nonempty:
  "\<not> is_running b \<Longrightarrow> c \<noteq> [] \<Longrightarrow>
     snd (start (fst (initialize b c))) = Success ''Mock bot started'' \<and>
     is_running (fst (start (fst (initialize b c))))"
  by (simp add: start_def initialize_def)

lemma start_never_initialized: "start init = (init, NotConfigured)"
  by (simp add: start_def init_def)


lemma buy_cost_le_cash:
  assumes c: "0 \<le> c" and p: "0 < p"
  shows "real_of_int \<lfloor>c * (95 / 100) / p\<rfloor> * p \<le> c"
proof -
  have "real_of_int \<lfloor>c * (95 / 100) / p\<rfloor> \<le> c * (95 / 100) / p" by (rule of_int_floor_le)
  then have "real_of_int \<lfloor>c * (95 / 100) / p\<rfloor> * p \<le> c * (95 / 100) / p * p"
    by (rule mult_right_mono) (use p in simp)
  also have "\<dots> = c * (95 / 100)" using p by simp
  also have "\<dots> \<le> c" using c by simp
  finally show ?thesis .
qed


lemma execute_sound:
  assumes s: "sound b"
  shows "\<exists>b'. execute_mock_trade b a ts n = Inr b' \<and> sound b' \<and>
           (shares_held b' \<noteq> shares_held b \<longrightarrow>
              (a = 1 \<and> shares_held b = 0 \<and> 0 < shares_held b') \<or>
              (a = 2 \<and> 0 < shares_held b \<and> shares_held b' = 0))"
proof -
  from s have c: "0 \<le> cash b" and h: "0 \<le> shares_held b" and p: "0 < current_price b"
    by (simp_all add: sound_def)
  let ?q = "cash b * (95 / 100) / current_price b"
  have q: "0 \<le> ?q" using c p by simp
  have cost: "real_of_int (py_int ?q) * current_price b \<le> cash b"
    unfolding py_int_floor [OF q] by (rule buy_cost_le_cash [OF c p])
  have rev: "0 \<le> real_of_int (shares_held b) * current_price b" using h p by simp
  show ?thesis using c h p cost rev
    by (auto simp: execute_mock_trade_def py_truediv_def Let_def sound_def)
qed

lemma apply_event_sound:
  assumes s: "sound b" and f: "positive_factor ev"
  shows "sound (apply_event b ev)"
proof (cases ev)
  case (PriceMove x)
  then show ?thesis using s f by (simp add: simulate_price_movement_def sound_def)
next
  case (Execute a ts n)
  then show ?thesis using execute_sound [OF s, of a ts n] by auto
next
  case (UpdateState ts1 ts2)
  then show ?thesis using s by (simp add: update_state_def Let_def sound_def)
next
  case (LoopBody x r ts n ts1 ts2)
  let ?b1 = "simulate_price_movement (b\<lparr>bot_state := (bot_state b)\<lparr>status := ''active''\<rparr>\<rparr>) x"
  have s1: "sound ?b1" using s f LoopBody by (simp add: simulate_price_movement_def sound_def)
  obtain b2 where e: "execute_mock_trade ?b1 (make_trading_decision ?b1 r) ts n = Inr b2"
    and s2: "sound b2"
    using execute_sound [OF s1] by blast
  have "sound (update_state b2 ts1 ts2)" using s2 by (simp add: update_state_def Let_def sound_def)
  then show ?thesis using LoopBody e by (simp add: trading_loop_body_def Let_def)
qed (use s in \<open>simp_all add: initialize_def start_def stop_def trading_loop_exit_def sound_def\<close>)

lemma run_sound:
  "sound b \<Longrightarrow> \<forall>e\<in>set evs. positive_factor e \<Longrightarrow> sound (run b evs)"
  unfolding run_def
  by (induction evs arbitrary: b) (simp_all add: apply_event_sound)

lemma init_sound: "sound init"
  by (simp add: sound_def init_def)

text \<open>
  C4: in every state reached from the initial one by a history of calls that keeps the
  price positive, \<open>shares_held\<close> and \<open>cash\<close> are not negative; executing any
  action there returns, keeps both non-negative, and changes \<open>shares_held\<close> only by a
  BUY from 0 to a positive value or by a SELL from a positive value to 0: a BUY never
  decreases it, a SELL never increases it, and any other action leaves it as it is.
\<close>

theorem position_never_negative:
  assumes "\<forall>e\<in>set evs. positive_factor e" and "b = run init evs"
  shows "0 \<le> shares_held b \<and> 0 \<le> cash b \<and>
         (\<exists>b'. execute_mock_trade b a ts n = Inr b' \<and>
            0 \<le> shares_held b' \<and> 0 \<le> cash b' \<and>
            (a = 1 \<longrightarrow> shares_held b \<le> shares_held b' \<and>
               (shares_held b' \<noteq> shares_held b \<longrightarrow> shares_held b = 0 \<and> 0 < shares_held b')) \<and>
            (a = 2 \<longrightarrow> shares_held b' \<le> shares_held b \<and>
               (shares_held b' \<noteq> shares_held b \<longrightarrow> 0 < shares_held b \<and> shares_held b' = 0)) \<and>
            (a \<noteq> 1 \<and> a \<noteq> 2 \<longrightarrow> shares_held b' = shares_held b))"
proof -
  have s: "sound b" using assms run_sound [OF init_sound] by simp
  obtain b' where e: "execute_mock_trade b a ts n = Inr b'" and s': "sound b'"
    and t: "shares_held b' \<noteq> shares_held b \<longrightarrow>
              (a = 1 \<and> shares_held b = 0 \<and> 0 < shares_held b') \<or>
              (a = 2 \<and> 0 < shares_held b \<and> shares_held b' = 0)"
    using execute_sound [OF s, of a ts n] by blast
  have "0 \<le> shares_held b' \<and> 0 \<le> cash b' \<and>
            (a = 1 \<longrightarrow> shares_held b \<le> shares_held b' \<and>
               (shares_held b' \<noteq> shares_held b \<longrightarrow> shares_held b = 0 \<and> 0 < shares_held b')) \<and>
            (a = 2 \<longrightarrow> shares_held b' \<le> shares_held b \<and>
               (shares_held b' \<noteq> shares_held b \<longrightarrow> 0 < shares_held b \<and> shares_held b' = 0)) \<and>
            (a \<noteq> 1 \<and> a \<noteq> 2 \<longrightarrow> shares_held b' = shares_held b)"
    using s s' t by (auto simp: sound_def)
  then show ?thesis using s e by (simp add: sound_def)
qed

theorem position_never_negative_witness:
  "list_all positive_factor [Execute 1 ''t'' 1234, PriceMove (1/10)] \<and>
   shares_held (run init [Execute 1 ''t'' 1234, PriceMove (1/10)]) = 54 \<and>
   (\<exists>b'. execute_mock_trade (run init [Execute 1 ''t'' 1234, PriceMove (1/10)]) 2 ''w'' 4321 = Inr b' \<and>
      0 \<le> cash b' \<and> shares_held b' \<le> 54)"
proof -
  let ?evs = "[Execute 1 ''t'' 1234, PriceMove (1/10)]"
  have h: "\<forall>e\<in>set ?evs. positive_factor e" by simp
  have s: "shares_held (run init ?evs) = 54"
    by (simp add: run_def init_def execute_mock_trade_def py_truediv_def py_int_def
          simulate_price_movement_def Let_def)
  show ?thesis using position_never_negative [OF h refl, of 2 "''w''" 4321] h s by auto
qed

section \<open>Order identifiers\<close>

lemma digit_char_inj: "a < 10 \<Longrightarrow> b < 10 \<Longrightarrow> digit_char a = digit_char b \<Longrightarrow> a = b"
proof -
  assume a: "a < 10" and b: "b < 10" and e: "digit_char a = digit_char b"
  from e have "(of_char (digit_char a) :: nat) = of_char (digit_char b)" by simp
  then have "(48 + a) mod 256 = (48 + b) mod 256" by (simp add: digit_char_def)
  then show "a = b" using a b by simp
qed

lemma digit_char_not_minus: "d < 10 \<Longrightarrow> digit_char d \<noteq> CHR ''-''"
proof
  assume d: "d < 10" and e: "digit_char d = CHR ''-''"
  from e have "(of_char (digit_char d) :: nat) = of_char (CHR ''-'')" by simp
  then have "(48 + d) mod 256 = 45" by (simp add: digit_char_def)
  then show False using d by simp
qed

lemma str_nat_not_Nil: "str_nat n \<noteq> []"
  by (subst str_nat.simps) simp

lemma str_nat_digits: "c \<in> set (str_nat n) \<Longrightarrow> \<exists>d<10. c = digit_char d"
proof (induction n rule: str_nat.induct)
  case (1 n)
  show ?case
  proof (cases "n < 10")
    case True
    then show ?thesis using "1.prems" by (subst (asm) str_nat.simps) auto
  next
    case False
    from "1.prems" have "c \<in> set (str_nat (n div 10)) \<or> c = digit_char (n mod 10)"
      by (subst (asm) str_nat.simps) (use False in auto)
    then show ?thesis
    proof
      assume "c \<in> set (str_nat (n div 10))"
      then show ?thesis using "1.IH" False by simp
    next
      assume "c = digit_char (n mod 10)"
      moreover have "n mod 10 < 10" by simp
      ultimately show ?thesis by blast
    qed
  qed
qed

lemma str_nat_inj: "str_nat m = str_nat n \<Longrightarrow> m = n"
proof (induction m arbitrary: n rule: str_nat.induct)
  case (1 m)
  show ?case
  proof (cases "m < 10")
    case m: True
    show ?thesis
    proof (cases "n < 10")
      case True
      have "str_nat m = [digit_char m]" "str_nat n = [digit_char n]"
        using m True by (simp_all add: str_nat.simps)
      then show ?thesis using "1.prems" m True digit_char_inj by simp
    next
      case False
      have "str_nat m = [digit_char m]" using m by (simp add: str_nat.simps)
      moreover have "str_nat n = str_nat (n div 10) @ [digit_char (n mod 10)]"
        using False by (simp add: str_nat.simps)
      ultimately show ?thesis using "1.prems" str_nat_not_Nil [of "n div 10"] by simp
    qed
  next
    case m: False
    have sm: "str_nat m = str_nat (m div 10) @ [digit_char (m mod 10)]"
      using m by (simp add: str_nat.simps)
    show ?thesis
    proof (cases "n < 10")
      case True
      have "str_nat n = [digit_char n]" using True by (simp add: str_nat.simps)
      then show ?thesis using "1.prems" sm str_nat_not_Nil [of "m div 10"] by simp
    next
      case False
      have sn: "str_nat n = str_nat (n div 10) @ [digit_char (n mod 10)]"
        using False by (simp add: str_nat.simps)
      from "1.prems" sm sn have a: "str_nat (m div 10) = str_nat (n div 10)"
        and b: "digit_char (m mod 10) = digit_char (n mod 10)" by simp_all
      from a have d: "m div 10 = n div 10" using "1.IH" m by simp
      from b have r: "m mod 10 = n mod 10" by (rule digit_char_inj [rotated 2]) simp_all
      have "m = 10 * (m div 10) + m mod 10" by simp
      also have "\<dots> = 10 * (n div 10) + n mod 10" using d r by simp
      also have "\<dots> = n" by simp
      finally show ?thesis .
    qed
  qed
qed

lemma str_int_inj: "str_int i = str_int j \<Longrightarrow> i = j"
proof -
  assume e: "str_int i = str_int j"
  have no_minus: "\<And>k. hd (str_nat k) \<noteq> CHR ''-''"
  proof -
    fix k
    have "hd (str_nat k) \<in> set (str_nat k)" using str_nat_not_Nil by simp
    then obtain d where "d < 10" "hd (str_nat k) = digit_char d" using str_nat_digits by blast
    then show "hd (str_nat k) \<noteq> CHR ''-''" using digit_char_not_minus by simp
  qed
  show "i = j"
  proof (cases "i < 0")
    case i: True
    show ?thesis
    proof (cases "j < 0")
      case True
      from e i True have "str_nat (nat (- i)) = str_nat (nat (- j))" by (simp add: str_int_def)
      then have "nat (- i) = nat (- j)" by (rule str_nat_inj)
      then show ?thesis using i True by simp
    next
      case False
      from e i False have "CHR ''-'' # str_nat (nat (- i)) = str_nat (nat j)"
        by (simp add: str_int_def)
      then have "hd (str_nat (nat j)) = CHR ''-''" by (metis list.sel(1))
      then show ?thesis using no_minus by simp
    qed
  next
    case i: False
    show ?thesis
    proof (cases "j < 0")
      case True
      from e i True have "str_nat (nat i) = CHR ''-'' # str_nat (nat (- j))"
        by (simp add: str_int_def)
      then have "hd (str_nat (nat i)) = CHR ''-''" by simp
      then show ?thesis using no_minus by simp
    next
      case False
      from e i False have "str_nat (nat i) = str_nat (nat j)" by (simp add: str_int_def)
      then have "nat i = nat j" by (rule str_nat_inj)
      then show ?thesis using i False by simp
    qed
  qed
qed

lemma execute_appends:
  assumes "execute_mock_trade b a ts n = Inr b'" and "trade_history b' \<noteq> trade_history b"
  shows "\<exists>tr. trade_history b' = trade_history b @ [tr] \<and> t_order_id tr = ''mock-'' @ str_int n \<and>
           t_timestamp tr = ts"
  using assms
  by (auto simp: execute_mock_trade_def py_truediv_def Let_def split: if_splits)

text \<open>
  C5, as amended: a trade record appended by \<open>execute_mock_trade\<close> carries the
  \<open>order_id\<close> "mock-" followed by the decimal form of the integer drawn for that trade,
  so the \<open>order_id\<close>s of two appended records differ exactly when their draws differ.
\<close>

theorem order_id_by_draw:
  assumes e1: "execute_mock_trade b1 a1 ts1 n1 = Inr b1'"
    and h1: "trade_history b1' \<noteq> trade_history b1"
    and e2: "execute_mock_trade b2 a2 ts2 n2 = Inr b2'"
    and h2: "trade_history b2' \<noteq> trade_history b2"
  shows "t_order_id (last (trade_history b1')) = ''mock-'' @ str_int n1 \<and>
         t_order_id (last (trade_history b2')) = ''mock-'' @ str_int n2 \<and>
         (t_order_id (last (trade_history b1')) = t_order_id (last (trade_history b2'))
            \<longleftrightarrow> n1 = n2)"
proof -
  obtain tr1 where t1: "trade_history b1' = trade_history b1 @ [tr1]"
    "t_order_id tr1 = ''mock-'' @ str_int n1"
    using execute_appends [OF e1 h1] by blast
  obtain tr2 where t2: "trade_history b2' = trade_history b2 @ [tr2]"
    "t_order_id tr2 = ''mock-'' @ str_int n2"
    using execute_appends [OF e2 h2] by blast
  have "(''mock-'' @ str_int n1 = ''mock-'' @ str_int n2) = (n1 = n2)"
    using str_int_inj by auto
  then show ?thesis using t1 t2 by simp
qed

text \<open>
  C5, as stated, fails: a BUY and the SELL that follows it, both with the draw 1000, leave
  two different records in the trade history with the same \<open>order_id\<close>.
\<close>

theorem order_id_collision:
  "length (trade_history (run init [Execute 1 ''t1'' 1000, Execute 2 ''t2'' 1000])) = 2 \<and>
   trade_history (run init [Execute 1 ''t1'' 1000, Execute 2 ''t2'' 1000]) ! 0 \<noteq>
     trade_history (run init [Execute 1 ''t1'' 1000, Execute 2 ''t2'' 1000]) ! 1 \<and>
   t_order_id (trade_history (run init [Execute 1 ''t1'' 1000, Execute 2 ''t2'' 1000]) ! 0) =
     t_order_id (trade_history (run init [Execute 1 ''t1'' 1000, Execute 2 ''t2'' 1000]) ! 1)"
  by (simp add: run_def init_def execute_mock_trade_def py_truediv_def py_int_def Let_def)

theorem order_id_by_draw_witness:
  "execute_mock_trade init 1 ''t1'' 1000 =
     Inr (run init [Execute 1 ''t1'' 1000]) \<and>
   trade_history (run init [Execute 1 ''t1'' 1000]) \<noteq> trade_history init \<and>
   execute_mock_trade (run init [Execute 1 ''t1'' 1000]) 2 ''t2'' 1001 =
     Inr (run init [Execute 1 ''t1'' 1000, Execute 2 ''t2'' 1001]) \<and>
   trade_history (run init [Execute 1 ''t1'' 1000, Execute 2 ''t2'' 1001]) \<noteq>
     trade_history (run init [Execute 1 ''t1'' 1000]) \<and>
   t_order_id (last (trade_history (run init [Execute 1 ''t1'' 1000]))) \<noteq>
     t_order_id (last (trade_history (run init [Execute 1 ''t1'' 1000, Execute 2 ''t2'' 1001])))"
proof -
  let ?b1 = "run init [Execute 1 ''t1'' 1000]"
  let ?b2 = "run init [Execute 1 ''t1'' 1000, Execute 2 ''t2'' 1001]"
  have e1: "execute_mock_trade init 1 ''t1'' 1000 = Inr ?b1"
    by (simp add: run_def init_def execute_mock_trade_def py_truediv_def py_int_def Let_def)
  have h1: "trade_history ?b1 \<noteq> trade_history init"
    by (simp add: run_def init_def execute_mock_trade_def py_truediv_def py_int_def Let_def)
  have e2: "execute_mock_trade ?b1 2 ''t2'' 1001 = Inr ?b2"
    by (simp add: run_def init_def execute_mock_trade_def py_truediv_def py_int_def Let_def)
  have h2: "trade_history ?b2 \<noteq> trade_history ?b1"
    by (simp add: run_def init_def execute_mock_trade_def py_truediv_def py_int_def Let_def)
  have "(t_order_id (last (trade_history ?b1)) = t_order_id (last (trade_history ?b2)))
          = ((1000 :: int) = 1001)"
    using order_id_by_draw [OF e1 h1 e2 h2] by blast
  then have "t_order_id (last (trade_history ?b1)) \<noteq> t_order_id (last (trade_history ?b2))"
    by simp
  then show ?thesis using e1 h1 e2 h2 by blast
qed

section \<open>Reading the histories\<close>

lemma py_slice_from_last: "0 < k \<Longrightarrow> py_slice_from xs (- k) = drop (length xs - nat k) xs"
proof -
  assume k: "0 < k"
  then have "nat (max (int (length xs) - k) 0) = length xs - nat k" by linarith
  with k show ?thesis by (simp add: py_slice_from_def Let_def)
qed

lemma drop_keep_last:
  "drop (length (drop (length xs - k) xs @ ys) - k) (drop (length xs - k) xs @ ys) =
   drop (length (xs @ ys) - k) (xs @ ys)"
proof (cases "length xs \<le> k")
  case True
  then show ?thesis by simp
next
  case False
  then have "length xs - (length xs - k) = k" by simp
  then show ?thesis using False by (simp add: add.commute)
qed

lemma update_state_history:
  "performance_history (update_state b ts1 ts2) =
     drop (length (performance_history b @ [new_sample b ts2]) - 1000)
       (performance_history b @ [new_sample b ts2]) \<and>
   trade_history (update_state b ts1 ts2) = trade_history b"
proof -
  let ?ph = "performance_history b @ [new_sample b ts2]"
  have "py_slice_from ?ph (- 1000) = drop (length ?ph - 1000) ?ph"
    using py_slice_from_last [of 1000 ?ph] by simp
  then show ?thesis by (simp add: update_state_def Let_def new_sample_def)
qed

lemma execute_history:
  "execute_mock_trade b a ts n = Inr b' \<Longrightarrow>
     performance_history b' = performance_history b \<and>
     prefix (trade_history b) (trade_history b')"
  by (auto simp: execute_mock_trade_def py_truediv_def Let_def split: if_splits)

lemma apply_event_history:
  assumes "length (performance_history b) \<le> 1000"
  shows "performance_history (apply_event b ev) =
           drop (length (performance_history b @ appended_by b ev) - 1000)
             (performance_history b @ appended_by b ev) \<and>
         prefix (trade_history b) (trade_history (apply_event b ev))"
proof (cases ev)
  case (Execute a ts n)
  then show ?thesis using assms execute_history [of b a ts n]
    by (cases "execute_mock_trade b a ts n") simp_all
next
  case (UpdateState ts1 ts2)
  then show ?thesis using update_state_history [of b ts1 ts2] by simp
next
  case (LoopBody x r ts n ts1 ts2)
  let ?b1 = "simulate_price_movement (b\<lparr>bot_state := (bot_state b)\<lparr>status := ''active''\<rparr>\<rparr>) x"
  have b1: "performance_history ?b1 = performance_history b" "trade_history ?b1 = trade_history b"
    by (simp_all add: simulate_price_movement_def)
  show ?thesis
  proof (cases "execute_mock_trade ?b1 (make_trading_decision ?b1 r) ts n")
    case (Inl e)
    then show ?thesis using LoopBody assms b1 by (simp add: trading_loop_body_def Let_def)
  next
    case (Inr b2)
    then show ?thesis
      using LoopBody b1 execute_history [OF Inr] update_state_history [of b2 ts1 ts2]
      by (simp add: trading_loop_body_def Let_def)
  qed
qed (use assms in \<open>simp_all add: initialize_def start_def stop_def trading_loop_exit_def
       simulate_price_movement_def\<close>)

lemma length_drop_keep: "length (drop (length xs - k) xs) \<le> k"
  by simp

lemma run_history:
  "length (performance_history b) \<le> 1000 \<Longrightarrow>
     performance_history (run b evs) =
       drop (length (performance_history b @ appended b evs) - 1000)
         (performance_history b @ appended b evs) \<and>
     prefix (trade_history b) (trade_history (run b evs))"
proof (induction evs arbitrary: b)
  case Nil
  then show ?case by (simp add: run_def)
next
  case (Cons ev evs)
  let ?b' = "apply_event b ev"
  note step = apply_event_history [OF Cons.prems, of ev]
  have len: "length (performance_history ?b') \<le> 1000"
    using step length_drop_keep [of "performance_history b @ appended_by b ev" 1000] by simp
  note ih = Cons.IH [OF len]
  have r: "run b (ev # evs) = run ?b' evs" by (simp add: run_def)
  have "performance_history (run ?b' evs) =
          drop (length ((performance_history b @ appended_by b ev) @ appended ?b' evs) - 1000)
            ((performance_history b @ appended_by b ev) @ appended ?b' evs)"
    using ih step
      drop_keep_last [of "performance_history b @ appended_by b ev" 1000 "appended ?b' evs"]
    by simp
  moreover have "prefix (trade_history b) (trade_history (run ?b' evs))"
    using ih step by (meson prefix_order.trans)
  ultimately show ?case using r by simp
qed

lemma appended_updates:
  "map p_timestamp (appended b (map (\<lambda>i. UpdateState [] (f i)) ns)) = map f ns"
  by (induction ns arbitrary: b) (simp_all add: new_sample_def)

lemma buy_then_sell:
  assumes "cash b = 10000" and "shares_held b = 0" and "current_price b = 175"
  shows "cash (run b [Execute 1 ts1 n1, Execute 2 ts2 n2]) = 10000 \<and>
         shares_held (run b [Execute 1 ts1 n1, Execute 2 ts2 n2]) = 0 \<and>
         current_price (run b [Execute 1 ts1 n1, Execute 2 ts2 n2]) = 175 \<and>
         length (trade_history (run b [Execute 1 ts1 n1, Execute 2 ts2 n2])) =
           length (trade_history b) + 2"
  using assms
  by (simp add: run_def execute_mock_trade_def py_truediv_def py_int_def Let_def)

lemma run_append: "run b (evs @ evs') = run (run b evs) evs'"
  by (simp add: run_def)

lemma trade_history_grows:
  assumes "cash b = 10000" and "shares_held b = 0" and "current_price b = 175"
  shows "length (trade_history
           (run b (concat (replicate k [Execute 1 ts1 n1, Execute 2 ts2 n2])))) =
         length (trade_history b) + 2 * k"
  using assms
proof (induction k arbitrary: b)
  case 0
  show ?case by (simp add: run_def)
next
  case (Suc k)
  let ?b' = "run b [Execute 1 ts1 n1, Execute 2 ts2 n2]"
  note step = buy_then_sell [OF Suc.prems, of ts1 n1 ts2 n2]
  have "run b (concat (replicate (Suc k) [Execute 1 ts1 n1, Execute 2 ts2 n2])) =
        run ?b' (concat (replicate k [Execute 1 ts1 n1, Execute 2 ts2 n2]))"
    by (simp only: replicate_Suc concat.simps run_append)
  then show ?case using Suc.IH [of ?b'] step by simp
qed

text \<open>
  C6: after any history of calls from the initial state, \<open>get_performance(1000)\<close>
  returns the last 1000 of the samples appended so far, in order, and never more than
  1000 are stored. Once 1001 samples have been appended it returns exactly 1000 of them,
  all but the oldest; the oldest is absent (as a value too, when the timestamps differ).
  The trade history is never cut: what it holds stays a prefix of what it holds after any
  further calls, and \<open>k\<close> rounds of BUY and SELL leave \<open>2 * k\<close> records in it,
  for every \<open>k\<close>.
\<close>

theorem performance_history_bounded:
  "get_performance (run init evs) (Some 1000) =
     drop (length (appended init evs) - 1000) (appended init evs) \<and>
   length (performance_history (run init evs)) \<le> 1000 \<and>
   (length (appended init evs) = 1001 \<longrightarrow>
      length (get_performance (run init evs) (Some 1000)) = 1000 \<and>
      get_performance (run init evs) (Some 1000) = tl (appended init evs) \<and>
      (distinct (map p_timestamp (appended init evs)) \<longrightarrow>
         hd (appended init evs) \<notin> set (get_performance (run init evs) (Some 1000)))) \<and>
   prefix (trade_history (run init evs)) (trade_history (run (run init evs) evs')) \<and>
   length (trade_history
     (run init (concat (replicate k [Execute 1 ts1 n1, Execute 2 ts2 n2])))) = 2 * k"
proof -
  let ?all = "appended init evs"
  let ?b = "run init evs"
  have i: "length (performance_history init) \<le> 1000" by (simp add: init_def)
  have ph: "performance_history ?b = drop (length ?all - 1000) ?all"
    using run_history [OF i, of evs] by (simp add: init_def)
  have len: "length (performance_history ?b) \<le> 1000" by (simp add: ph)
  have gp: "get_performance ?b (Some 1000) = performance_history ?b"
    using py_slice_from_last [of 1000 "performance_history ?b"] len
    by (simp add: get_performance_def)
  have full: "length ?all = 1001 \<Longrightarrow>
      length (get_performance ?b (Some 1000)) = 1000 \<and>
      get_performance ?b (Some 1000) = tl ?all \<and>
      (distinct (map p_timestamp ?all) \<longrightarrow> hd ?all \<notin> set (get_performance ?b (Some 1000)))"
  proof -
    assume l: "length ?all = 1001"
    then obtain x xs where c: "?all = x # xs" by (cases ?all) simp_all
    have t: "get_performance ?b (Some 1000) = tl ?all" using l by (simp add: gp ph drop_Suc)
    have "distinct (map p_timestamp ?all) \<Longrightarrow> hd ?all \<notin> set (tl ?all)"
      unfolding c by (auto simp: distinct_map)
    then show ?thesis using t l by simp
  qed
  have tr: "prefix (trade_history ?b) (trade_history (run ?b evs'))"
    using run_history [OF len, of evs'] by simp
  have a: "get_performance ?b (Some 1000) = drop (length ?all - 1000) ?all"
    using gp ph by simp
  have gr: "length (trade_history
              (run init (concat (replicate k [Execute 1 ts1 n1, Execute 2 ts2 n2])))) = 2 * k"
    using trade_history_grows [of init k ts1 n1 ts2 n2] by (simp add: init_def)
  show ?thesis using a len full tr gr by blast
qed

theorem performance_history_bounded_witness:
  "length (appended init (map (\<lambda>i. UpdateState [] (replicate i CHR ''0'')) [0..<1001])) = 1001 \<and>
   distinct (map p_timestamp
     (appended init (map (\<lambda>i. UpdateState [] (replicate i CHR ''0'')) [0..<1001]))) \<and>
   length (get_performance
     (run init (map (\<lambda>i. UpdateState [] (replicate i CHR ''0'')) [0..<1001])) (Some 1000)) = 1000 \<and>
   hd (appended init (map (\<lambda>i. UpdateState [] (replicate i CHR ''0'')) [0..<1001])) \<notin>
     set (get_performance
       (run init (map (\<lambda>i. UpdateState [] (replicate i CHR ''0'')) [0..<1001])) (Some 1000))"
proof -
  let ?evs = "map (\<lambda>i. UpdateState [] (replicate i CHR ''0'')) [0..<1001]"
  have ts: "map p_timestamp (appended init ?evs) = map (\<lambda>i. replicate i CHR ''0'') [0..<1001]"
    by (rule appended_updates)
  have "length (map p_timestamp (appended init ?evs)) = 1001" unfolding ts by simp
  then have l: "length (appended init ?evs) = 1001" by simp
  have "inj_on (\<lambda>i. replicate i CHR ''0'') (set [0..<1001])"
    by (rule inj_onI) (metis length_replicate)
  then have d: "distinct (map p_timestamp (appended init ?evs))"
    unfolding ts by (simp add: distinct_map)
  show ?thesis using performance_history_bounded [of ?evs "[]"] l d by blast
qed

lemma get_trades_positive_limit:
  "0 < l \<Longrightarrow> get_trades b (Some l) = drop (length (trade_history b) - nat l) (trade_history b)"
  using py_slice_from_last [of l "trade_history b"] by (simp add: get_trades_def)

lemma get_performance_positive_limit:
  "0 < l \<Longrightarrow>
     get_performance b (Some l) =
       drop (length (performance_history b) - nat l) (performance_history b)"
  using py_slice_from_last [of l "performance_history b"] by (simp add: get_performance_def)

lemma default_limits:
  "get_trades b None = get_trades b (Some 50) \<and>
   get_performance b None = get_performance b (Some 200)"
  by (simp add: get_trades_def get_performance_def)

text \<open>
  C7: with one trade recorded, \<open>get_trades(0)\<close> returns one record, not the most
  recent zero; with three trades recorded, \<open>get_trades(-2)\<close> returns the last record
  only. For a positive limit the result is the most recent \<open>limit\<close> records, or the
  whole history when it is shorter (\<open>get_trades_positive_limit\<close>,
  \<open>get_performance_positive_limit\<close>), and an omitted limit is 50 for trades and 200
  for performance (\<open>default_limits\<close>).
\<close>

theorem get_trades_limit_not_positive:
  "length (trade_history (run init [Execute 1 ''t'' 1234])) = 1 \<and>
   length (get_trades (run init [Execute 1 ''t'' 1234]) (Some 0)) = 1 \<and>
   length (trade_history
     (run init [Execute 1 ''t'' 1234, Execute 2 ''u'' 2345, Execute 1 ''v'' 3456])) = 3 \<and>
   get_trades (run init [Execute 1 ''t'' 1234, Execute 2 ''u'' 2345, Execute 1 ''v'' 3456])
       (Some (- 2)) =
     [last (trade_history
        (run init [Execute 1 ''t'' 1234, Execute 2 ''u'' 2345, Execute 1 ''v'' 3456]))]"
  by (simp add: run_def init_def execute_mock_trade_def py_truediv_def py_int_def Let_def
        get_trades_def py_slice_from_def)

lemma py_slice_from_zero: "py_slice_from xs 0 = xs"
  by (simp add: py_slice_from_def)

text \<open>
  C9: \<open>get_trades\<close> and \<open>get_performance\<close> called with \<open>limit = 0\<close> return the
  whole of the stored history, not the empty list: the slice \<open>xs[-0:]\<close> is \<open>xs[0:]\<close>.
\<close>

theorem limit_zero_returns_whole_history:
  "get_trades b (Some 0) = trade_history b \<and>
   get_performance b (Some 0) = performance_history b \<and>
   length (get_trades b (Some 0)) = length (trade_history b) \<and>
   length (get_performance b (Some 0)) = length (performance_history b)"
  by (simp add: get_trades_def get_performance_def py_slice_from_zero)

end
